theory Spec2Isabelle
  imports Complex_Main "HOL-Library.Sublist" "HOL-Library.Char_ord" "HOL-Library.List_Lexorder"
    "HOL-Library.Multiset"
begin

section \<open>Sentiment and intensity scorer (src/preprocessing/text\_cleaner.py)\<close>

subsection \<open>Binary floating point\<close>

text \<open>
  Python's \<^verbatim>\<open>float\<close> is IEEE 754 binary64. A float is modelled by the real number it
  denotes, and \<open>fl\<close> rounds a real number to the nearest float, a tie to the even mantissa:
  the number is scaled by powers of two into the binade from 1 to 2, rounded there to a
  multiple of \<open>2^-52\<close>, and scaled back. The scaling stops after 1022 doublings, which gives
  the subnormal numbers their fixed spacing; overflow to infinity is not modelled, so \<open>fl\<close>
  is the rounding of Python wherever the result is finite. An arithmetic
  operation on floats is the exact operation followed by \<open>fl\<close>, and a decimal literal of
  the source such as \<^verbatim>\<open>0.4\<close> is \<open>fl 0.4\<close>.
\<close>

definition round_half_even :: "real \<Rightarrow> int" where
  "round_half_even x =
     (let f = \<lfloor>x\<rfloor>; d = x - of_int f
      in if d < 1 / 2 then f else if d > 1 / 2 then f + 1 else if even f then f else f + 1)"

definition grid :: "real \<Rightarrow> real" where
  "grid x = of_int (round_half_even (x * 2 ^ 52)) / 2 ^ 52"

fun round_up :: "nat \<Rightarrow> real \<Rightarrow> real" where
  "round_up 0 x = grid x"
| "round_up (Suc n) x = (if x < 2 then grid x else 2 * round_up n (x / 2))"

fun round_down :: "nat \<Rightarrow> real \<Rightarrow> real" where
  "round_down 0 x = grid x"
| "round_down (Suc n) x = (if 1 \<le> x then grid x else round_down n (2 * x) / 2)"

definition fl_pos :: "real \<Rightarrow> real" where
  "fl_pos x = (if 1 \<le> x then round_up 1023 x else round_down 1022 x)"

definition fl :: "real \<Rightarrow> real" where
  "fl x = (if x = 0 then 0 else if x < 0 then - fl_pos (- x) else fl_pos x)"

definition fadd :: "real \<Rightarrow> real \<Rightarrow> real" where
  "fadd a b = fl (a + b)"

definition fsub :: "real \<Rightarrow> real \<Rightarrow> real" where
  "fsub a b = fl (a - b)"

definition fmul :: "real \<Rightarrow> real \<Rightarrow> real" where
  "fmul a b = fl (a * b)"

definition fdiv :: "real \<Rightarrow> real \<Rightarrow> real" where
  "fdiv a b = fl (a / b)"

subsection \<open>Risk level\<close>

datatype RiskLevel = Low | Medium | High | Critical

text \<open>The order \<open>Low < Medium < High < Critical\<close> of the data model, as a rank.\<close>

fun level_rank :: "RiskLevel \<Rightarrow> nat" where
  "level_rank Low = 0"
| "level_rank Medium = 1"
| "level_rank High = 2"
| "level_rank Critical = 3"

text \<open>
  \<^verbatim>\<open>risk_score = (abs(sentiment) * 0.4 + conflict_intensity * 0.6)\<close>, in floating point.
  The two arguments are floats: a real argument stands for the float nearest to it, as a
  decimal literal does.
\<close>

definition risk_score :: "real \<Rightarrow> real \<Rightarrow> real" where
  "risk_score sentiment conflict_intensity =
     fadd (fmul \<bar>fl sentiment\<bar> (fl 0.4)) (fmul (fl conflict_intensity) (fl 0.6))"

text \<open>\<^verbatim>\<open>TextPreprocessor._calculate_risk_level\<close>: the \<open>if/elif\<close> chain in source order.\<close>

definition calculate_risk_level :: "real \<Rightarrow> real \<Rightarrow> RiskLevel" where
  "calculate_risk_level sentiment conflict_intensity =
     (let rs = risk_score sentiment conflict_intensity in
      if rs > fl 0.7 then Critical
      else if rs > fl 0.5 then High
      else if rs > fl 0.3 then Medium
      else Low)"

text \<open>\<^verbatim>\<open>TextPreprocessor._get_sentiment_label\<close>\<close>

datatype SentimentLabel = Positive | Negative | Neutral

definition get_sentiment_label :: "real \<Rightarrow> SentimentLabel" where
  "get_sentiment_label compound_score =
     (if compound_score \<ge> 0.05 then Positive
      else if compound_score \<le> - 0.05 then Negative
      else Neutral)"

subsection \<open>Characters and strings\<close>

text \<open>
  Texts are modelled as ASCII strings; a character outside ASCII counts as a symbol that
  is neither a word character nor white space. \<open>lower_char\<close> is \<^verbatim>\<open>str.lower\<close> on one
  character; \<open>is_word\<close>, \<open>is_space\<close> and \<open>is_digit\<close> are the classes
  \<^verbatim>\<open>\w\<close>, \<^verbatim>\<open>\s\<close> and \<^verbatim>\<open>\d\<close> of Python's \<^verbatim>\<open>re\<close> restricted to ASCII
  (for a \<^verbatim>\<open>str\<close> pattern \<^verbatim>\<open>\s\<close> includes the separators 0x1C to 0x1F).
\<close>

definition lower_char :: "char \<Rightarrow> char" where
  "lower_char c =
     (case map_of (zip ''ABCDEFGHIJKLMNOPQRSTUVWXYZ'' ''abcdefghijklmnopqrstuvwxyz'') c of
        Some l \<Rightarrow> l
      | None \<Rightarrow> c)"

definition lower :: "string \<Rightarrow> string" where
  "lower s = map lower_char s"

definition is_digit :: "char \<Rightarrow> bool" where
  "is_digit c \<longleftrightarrow> c \<in> set ''0123456789''"

definition is_alpha :: "char \<Rightarrow> bool" where
  "is_alpha c \<longleftrightarrow>
     c \<in> set ''abcdefghijklmnopqrstuvwxyz'' \<or> c \<in> set ''ABCDEFGHIJKLMNOPQRSTUVWXYZ''"

definition is_word :: "char \<Rightarrow> bool" where
  "is_word c \<longleftrightarrow> is_alpha c \<or> is_digit c \<or> c = CHR ''_''"

definition is_space :: "char \<Rightarrow> bool" where
  "is_space c \<longleftrightarrow>
     c \<in> set [CHR '' '', CHR 0x09, CHR 0x0A, CHR 0x0B, CHR 0x0C, CHR 0x0D,
                CHR 0x1C, CHR 0x1D, CHR 0x1E, CHR 0x1F]"

text \<open>\<^verbatim>\<open>word in text\<close> on strings: \<open>word\<close> occurs as a contiguous substring.\<close>

fun str_contains :: "string \<Rightarrow> string \<Rightarrow> bool" where
  "str_contains w [] = (w = [])"
| "str_contains w (c # cs) = (prefix w (c # cs) \<or> str_contains w cs)"

text \<open>\<^verbatim>\<open>' '.join(tokens)\<close>\<close>

fun join_space :: "string list \<Rightarrow> string" where
  "join_space [] = []"
| "join_space [t] = t"
| "join_space (t # u # ts) = t @ '' '' @ join_space (u # ts)"

subsection \<open>Regular-expression substitutions of \<^verbatim>\<open>clean_text\<close>\<close>

text \<open>
  A pattern is modelled by its matcher: applied to the rest of the text at a position,
  it returns the length of the (greedy, leftmost-alternative) match starting there, if any.
  No pattern of the source matches the empty string.
  \<open>re_delete\<close> is \<^verbatim>\<open>re.sub(pattern, '', text)\<close>: it scans from the left, drops each
  match and continues behind it; the counter is the number of characters of the current
  match still to drop.
\<close>

type_synonym matcher = "string \<Rightarrow> nat option"

fun re_delete_from :: "matcher \<Rightarrow> nat \<Rightarrow> string \<Rightarrow> string" where
  "re_delete_from m k [] = []"
| "re_delete_from m (Suc k) (c # cs) = re_delete_from m k cs"
| "re_delete_from m 0 (c # cs) =
     (case m (c # cs) of
        Some n \<Rightarrow> re_delete_from m (n - 1) cs
      | None \<Rightarrow> c # re_delete_from m 0 cs)"

definition re_delete :: "matcher \<Rightarrow> string \<Rightarrow> string" where
  "re_delete m s = re_delete_from m 0 s"

text \<open>A literal followed by one or more characters of a class, as in \<^verbatim>\<open>http\S+\<close>.\<close>

definition lit_plus :: "string \<Rightarrow> (char \<Rightarrow> bool) \<Rightarrow> matcher" where
  "lit_plus lit cls s =
     (if prefix lit s then
        (let run = takeWhile cls (drop (length lit) s)
         in if run = [] then None else Some (length lit + length run))
      else None)"

text \<open>Alternation \<^verbatim>\<open>a|b\<close>: the first alternative that matches wins.\<close>

definition alt :: "matcher \<Rightarrow> matcher \<Rightarrow> matcher" where
  "alt m1 m2 s = (case m1 s of Some n \<Rightarrow> Some n | None \<Rightarrow> m2 s)"

text \<open>\<^verbatim>\<open>r'http\S+|www\S+|https\S+'\<close>\<close>

definition url_pattern :: matcher where
  "url_pattern =
     alt (lit_plus ''http'' (\<lambda>c. \<not> is_space c))
       (alt (lit_plus ''www'' (\<lambda>c. \<not> is_space c))
            (lit_plus ''https'' (\<lambda>c. \<not> is_space c)))"

text \<open>\<^verbatim>\<open>r'@\w+'\<close>\<close>

definition mention_pattern :: matcher where
  "mention_pattern = lit_plus ''@'' is_word"

subsection \<open>The text normalizer\<close>

text \<open>
  The libraries the preprocessor calls (NLTK's stop word list, tokenizer and WordNet
  lemmatizer, the emoji package, TextBlob and VADER) are not part of the repository; they
  are parameters of the model.
\<close>

record vader_scores =
  compound :: real
  pos :: real
  neg :: real
  neu :: real

record nlp =
  stopwords_english :: "string list"
  word_tokenize :: "string \<Rightarrow> string list"
  lemmatize :: "string \<Rightarrow> string"
  demojize :: "string \<Rightarrow> string"
  textblob_polarity :: "string \<Rightarrow> real"
  textblob_subjectivity :: "string \<Rightarrow> real"
  polarity_scores :: "string \<Rightarrow> vader_scores"

text \<open>\<^verbatim>\<open>self.conflict_keywords\<close> of \<^verbatim>\<open>__init__\<close>: the vocabulary that is never a stop word.\<close>

definition conflict_keywords :: "string list" where
  "conflict_keywords =
     [''conflict'', ''war'', ''peace'', ''violence'', ''attack'', ''protest'',
      ''demonstration'', ''riot'', ''clash'', ''tension'', ''security'',
      ''unrest'', ''ceasefire'', ''mediation'', ''negotiation'']"

text \<open>\<^verbatim>\<open>self.stop_words = self.stop_words - self.conflict_keywords\<close>\<close>

definition stop_words :: "('a nlp_scheme) \<Rightarrow> string set" where
  "stop_words env = set (stopwords_english env) - set conflict_keywords"

text \<open>
  The filter of the list comprehension of \<^verbatim>\<open>clean_text\<close>:
  \<^verbatim>\<open>token not in self.stop_words and len(token) > 2\<close>.
\<close>

definition keep_token :: "('a nlp_scheme) \<Rightarrow> string \<Rightarrow> bool" where
  "keep_token env token \<longleftrightarrow> token \<notin> stop_words env \<and> length token > 2"

text \<open>The character-level steps of \<^verbatim>\<open>clean_text\<close>, in source order, up to the emoji step.\<close>

definition strip_chars :: "string \<Rightarrow> string" where
  "strip_chars text =
     (let t1 = lower text;
          t2 = re_delete url_pattern t1;
          t3 = re_delete mention_pattern t2;
          t4 = filter (\<lambda>c. c \<noteq> CHR ''#'') t3;
          t5 = map (\<lambda>c. if is_word c \<or> is_space c then c else CHR '' '') t4;
          t6 = filter (\<lambda>c. \<not> is_digit c) t5
      in t6)"

datatype pyobj = PyStr string | PyNone

text \<open>\<^verbatim>\<open>TextPreprocessor.clean_text\<close>; an argument that is not a string gives the empty string.\<close>

definition clean_str :: "('a nlp_scheme) \<Rightarrow> string \<Rightarrow> string" where
  "clean_str env text =
     (let t7 = demojize env (strip_chars text);
          tokens = word_tokenize env t7;
          tokens' = map (lemmatize env) (filter (keep_token env) tokens)
      in join_space tokens')"

fun clean_text :: "('a nlp_scheme) \<Rightarrow> pyobj \<Rightarrow> string" where
  "clean_text env (PyStr text) = clean_str env text"
| "clean_text env PyNone = []"

subsection \<open>Sentiment analysis\<close>

definition conflict_words :: "string list" where
  "conflict_words =
     [''attack'', ''violence'', ''kill'', ''death'', ''protest'',
      ''riot'', ''clash'', ''unrest'', ''tension'', ''war'']"

text \<open>\<^verbatim>\<open>sum(1 for word in conflict_words if word in text.lower())\<close>\<close>

definition conflict_count :: "string \<Rightarrow> nat" where
  "conflict_count text = length (filter (\<lambda>word. str_contains word (lower text)) conflict_words)"

text \<open>\<^verbatim>\<open>min(conflict_count / 5, 1.0)\<close>\<close>

definition conflict_intensity_of :: "string \<Rightarrow> real" where
  "conflict_intensity_of text = min (real (conflict_count text) / 5) 1"

record analysis =
  raw_text :: string
  cleaned_text :: string
  polarity_tb :: real
  subjectivity_tb :: real
  vader_compound :: real
  vader_positive :: real
  vader_negative :: real
  vader_neutral :: real
  conflict_intensity :: real
  sentiment_label :: SentimentLabel
  risk_level :: RiskLevel

text \<open>\<^verbatim>\<open>TextPreprocessor.analyze_sentiment\<close>: VADER runs on the raw text.\<close>

definition analyze_sentiment :: "('a nlp_scheme) \<Rightarrow> string \<Rightarrow> analysis" where
  "analyze_sentiment env txt =
     (let cleaned = clean_text env (PyStr txt);
          scores = polarity_scores env txt;
          ci = conflict_intensity_of txt
      in \<lparr> raw_text = txt,
           cleaned_text = cleaned,
           polarity_tb = textblob_polarity env cleaned,
           subjectivity_tb = textblob_subjectivity env cleaned,
           vader_compound = compound scores,
           vader_positive = pos scores,
           vader_negative = neg scores,
           vader_neutral = neu scores,
           conflict_intensity = ci,
           sentiment_label = get_sentiment_label (compound scores),
           risk_level = calculate_risk_level (compound scores) ci \<rparr>)"

text \<open>
  A small stand-in for the libraries, used to run the model on concrete texts: the
  tokenizer splits at white space, the lemmatizer and the emoji step change nothing, and
  the stop word list is a sample of NLTK's English list.
\<close>

fun split_ws :: "string \<Rightarrow> string \<Rightarrow> string list" where
  "split_ws acc [] = (if acc = [] then [] else [acc])"
| "split_ws acc (c # cs) =
     (if is_space c then (if acc = [] then split_ws [] cs else acc # split_ws [] cs)
      else split_ws (acc @ [c]) cs)"

definition stub_nlp :: nlp where
  "stub_nlp =
     \<lparr> stopwords_english = [''the'', ''is'', ''and'', ''a'', ''of'', ''to'', ''in'', ''are''],
       word_tokenize = split_ws [],
       lemmatize = (\<lambda>t. t),
       demojize = (\<lambda>t. t),
       textblob_polarity = (\<lambda>t. 0),
       textblob_subjectivity = (\<lambda>t. 0),
       polarity_scores = (\<lambda>t. \<lparr> compound = 0, pos = 0, neg = 0, neu = 1 \<rparr>) \<rparr>"

section \<open>Risk classifier (src/models/conflict\_predictor.py)\<close>

datatype py_error = ValueError string | KeyError string | ZeroDivisionError

text \<open>
  scikit-learn and the boosting libraries are parameters: \<open>'m\<close> is the type of
  estimators, \<open>'s\<close> of scalers. A feature table is its column names and its rows of values.
\<close>

record frame =
  frame_columns :: "string list"
  frame_values :: "real list list"

record ('m, 's) sklearn =
  new_scaler :: 's
  random_forest :: 'm
  gradient_boosting :: 'm
  xgboost :: 'm
  lightgbm :: 'm
  scaler_fit_transform :: "'s \<Rightarrow> real list list \<Rightarrow> 's \<times> real list list"
  scaler_transform :: "'s \<Rightarrow> real list list \<Rightarrow> real list list"
  model_fit :: "'m \<Rightarrow> real list list \<Rightarrow> int list \<Rightarrow> 'm"
  grid_search_best :: "'m \<Rightarrow> real list list \<Rightarrow> int list \<Rightarrow> 'm"
  model_predict :: "'m \<Rightarrow> real list list \<Rightarrow> int list"
  model_predict_proba :: "'m \<Rightarrow> real list list \<Rightarrow> real list list"
  feature_importances :: "'m \<Rightarrow> real list option"

text \<open>The attributes of a \<^verbatim>\<open>ConflictPredictor\<close>; \<open>model = None\<close> until trained.\<close>

record ('m, 's) ConflictPredictor =
  model_type :: string
  model :: "'m option"
  scaler :: 's
  feature_importance :: "(string \<times> real) list option"
  models :: "(string \<times> 'm) list"

text \<open>\<^verbatim>\<open>ConflictPredictor.__init__\<close>\<close>

definition init_predictor :: "('m, 's) sklearn \<Rightarrow> string \<Rightarrow> ('m, 's) ConflictPredictor" where
  "init_predictor lib mt =
     \<lparr> model_type = mt,
       model = None,
       scaler = new_scaler lib,
       feature_importance = None,
       models = [(''random_forest'', random_forest lib),
                 (''gradient_boosting'', gradient_boosting lib),
                 (''xgboost'', xgboost lib),
                 (''lightgbm'', lightgbm lib)] \<rparr>"

text \<open>
  \<^verbatim>\<open>ConflictPredictor.train\<close> returns the updated predictor and the exception raised, if
  any. The scaler is fitted before the estimator is looked up, so a \<^verbatim>\<open>KeyError\<close> for an
  unknown \<^verbatim>\<open>model_type\<close> leaves a fitted scaler and no model. Outside the grid-search
  branch the estimator of the dictionary is itself fitted in place.
\<close>

definition train ::
  "('m, 's) sklearn \<Rightarrow> ('m, 's) ConflictPredictor \<Rightarrow> frame \<Rightarrow> int list
     \<Rightarrow> ('m, 's) ConflictPredictor \<times> py_error option" where
  "train lib p X_train y_train =
     (let (sc, X_train_scaled) = scaler_fit_transform lib (scaler p) (frame_values X_train);
          p1 = p\<lparr>scaler := sc\<rparr>
      in case map_of (models p1) (model_type p1) of
           None \<Rightarrow> (p1, Some (KeyError (model_type p1)))
         | Some base \<Rightarrow>
             (let p2 =
                (if model_type p1 = ''random_forest''
                 then p1\<lparr>model := Some (grid_search_best lib base X_train_scaled y_train)\<rparr>
                 else (let m = model_fit lib base X_train_scaled y_train
                       in p1\<lparr>model := Some m,
                             models := map (\<lambda>(k, v). if k = model_type p1 then (k, m) else (k, v))
                                         (models p1)\<rparr>))
              in case model p2 of
                   None \<Rightarrow> (p2, None)
                 | Some m \<Rightarrow>
                     (case feature_importances lib m of
                        None \<Rightarrow> (p2, None)
                      | Some imps \<Rightarrow>
                          (p2\<lparr>feature_importance :=
                                Some (sort_key (\<lambda>(f, i). - i) (zip (frame_columns X_train) imps))\<rparr>,
                           None))))"

text \<open>\<^verbatim>\<open>ConflictPredictor.predict\<close>\<close>

definition predict ::
  "('m, 's) sklearn \<Rightarrow> ('m, 's) ConflictPredictor \<Rightarrow> frame
     \<Rightarrow> py_error + (int list \<times> real list list)" where
  "predict lib p X =
     (case model p of
        None \<Rightarrow> Inl (ValueError ''Model not trained. Call train() first.'')
      | Some m \<Rightarrow>
          (let X_scaled = scaler_transform lib (scaler p) (frame_values X);
               predictions = model_predict lib m X_scaled;
               probabilities = model_predict_proba lib m X_scaled
           in Inr (predictions, probabilities)))"

text \<open>
  A small stand-in for the library, used to run the model: the scaler stores the mean of
  all training values and subtracts it, an estimator is a threshold on the row sum.
\<close>

definition stub_sklearn :: "(real, real) sklearn" where
  "stub_sklearn =
     \<lparr> new_scaler = 0,
       random_forest = 0,
       gradient_boosting = 0,
       xgboost = 0,
       lightgbm = 0,
       scaler_fit_transform =
         (\<lambda>s X. let vs = concat X; mu = (if vs = [] then 0 else sum_list vs / real (length vs))
                in (mu, map (map (\<lambda>v. v - mu)) X)),
       scaler_transform = (\<lambda>s X. map (map (\<lambda>v. v - s)) X),
       model_fit = (\<lambda>m X y. 1),
       grid_search_best = (\<lambda>m X y. 2),
       model_predict = (\<lambda>m X. map (\<lambda>row. if sum_list row > m then 1 else 0) X),
       model_predict_proba =
         (\<lambda>m X. map (\<lambda>row. if sum_list row > m then [0, 1] else [1, 0]) X),
       feature_importances = (\<lambda>m. None) \<rparr>"

section \<open>Early-warning detector and aggregator (src/visualizations/dashboard\_generator.py)\<close>

text \<open>
  A data frame is its list of column names and its rows. A field of a row is meaningful
  only when its column is listed; \<open>col_date\<close> is a time stamp. Means of pandas are
  \<^verbatim>\<open>NaN\<close> on an empty series, modelled by \<open>None\<close>, and a comparison with
  \<^verbatim>\<open>NaN\<close> is false.
\<close>

record tweet_row =
  col_date :: int
  col_region :: string
  col_vader_compound :: real
  col_conflict_intensity :: real
  col_risk_level :: RiskLevel
  col_week :: nat

record dataframe =
  columns :: "string list"
  rows :: "tweet_row list"

definition mean_list :: "real list \<Rightarrow> real option" where
  "mean_list xs = (if xs = [] then None else Some (sum_list xs / real (length xs)))"

text \<open>\<^verbatim>\<open>.tail(n)\<close> and \<^verbatim>\<open>.head(n)\<close>\<close>

definition tail :: "nat \<Rightarrow> 'a list \<Rightarrow> 'a list" where
  "tail n xs = drop (length xs - n) xs"

definition head :: "nat \<Rightarrow> 'a list \<Rightarrow> 'a list" where
  "head n xs = take n xs"

text \<open>
  Two operations of pandas are parameters, since their result depends on the library and
  not only on the mathematics: \<^verbatim>\<open>df.sort_values('date')\<close>, whose default algorithm
  (quicksort) leaves the order of rows of equal date open, and \<^verbatim>\<open>Series.mean()\<close>, a
  floating-point sum in an order the library chooses, divided by the count (\<open>None\<close> is
  \<^verbatim>\<open>NaN\<close>).
\<close>

record pandas =
  sort_by_date :: "tweet_row list \<Rightarrow> tweet_row list"
  series_mean :: "real list \<Rightarrow> real option"

text \<open>
  A stand-in for the two operations, used to run the model: a stable sort, and the mean as
  the sum from left to right in floating point divided by the count.
\<close>

definition float_mean :: "real list \<Rightarrow> real option" where
  "float_mean xs =
     (if xs = [] then None
      else Some (fdiv (foldl fadd 0 (map fl xs)) (real (length xs))))"

definition stub_pandas :: pandas where
  "stub_pandas = \<lparr> sort_by_date = sort_key col_date, series_mean = float_mean \<rparr>"

text \<open>The pieces of an f-string: literal text, \<^verbatim>\<open>{x:.2f}\<close> and \<^verbatim>\<open>{n}\<close>.\<close>

datatype fpart = Lit string | Float2 real | IntD nat

record warning =
  wtype :: string
  severity :: string
  message :: "fpart list"
  suggested_action :: string

text \<open>
  The sentiment-drop rule of \<^verbatim>\<open>_generate_early_warnings\<close>. The subtraction
  \<^verbatim>\<open>previous_sentiment - 0.3\<close> is a floating-point operation.
\<close>

definition sentiment_drop_warnings :: "('a pandas_scheme) \<Rightarrow> dataframe \<Rightarrow> warning list" where
  "sentiment_drop_warnings pd df =
     (if ''vader_compound'' \<in> set (columns df) \<and> ''date'' \<in> set (columns df) then
        (let df_sorted = map col_vader_compound (sort_by_date pd (rows df));
             recent_sentiment = series_mean pd (tail 7 df_sorted);
             previous_sentiment = series_mean pd (head 7 (tail 14 df_sorted))
         in case (recent_sentiment, previous_sentiment) of
              (Some recent, Some previous) \<Rightarrow>
                (if recent < fsub previous (fl 0.3) then
                   [\<lparr> wtype = ''sentiment_drop'',
                      severity = ''high'',
                      message = [Lit ''Significant sentiment drop detected: '', Float2 recent,
                                 Lit '' vs '', Float2 previous],
                      suggested_action = ''Monitor social media for potential unrest triggers'' \<rparr>]
                 else [])
            | _ \<Rightarrow> [])
      else [])"

text \<open>The intensity-cluster rule of \<^verbatim>\<open>_generate_early_warnings\<close>.\<close>

definition high_intensity_count :: "dataframe \<Rightarrow> nat" where
  "high_intensity_count df = length (filter (\<lambda>r. col_conflict_intensity r > 0.7) (rows df))"

definition intensity_cluster_warnings :: "dataframe \<Rightarrow> warning list" where
  "intensity_cluster_warnings df =
     (if ''conflict_intensity'' \<in> set (columns df) then
        (if high_intensity_count df > 10 then
           [\<lparr> wtype = ''high_intensity_cluster'',
              severity = ''critical'',
              message = [IntD (high_intensity_count df),
                         Lit '' high-intensity conflict mentions detected''],
              suggested_action = ''Deploy rapid response teams to affected regions'' \<rparr>]
         else [])
      else [])"

text \<open>\<^verbatim>\<open>DashboardGenerator._generate_early_warnings\<close>\<close>

definition generate_early_warnings :: "('a pandas_scheme) \<Rightarrow> dataframe \<Rightarrow> warning list" where
  "generate_early_warnings pd df = sentiment_drop_warnings pd df @ intensity_cluster_warnings df"

subsection \<open>The monthly report\<close>

text \<open>
  The wall clock, the ISO week of a time stamp (pandas) and the condition of the
  trend block are parameters. Line 206 of the source starts a block nested one level below
  the assignment of the \<^verbatim>\<open>week\<close> column, and the statement that opens this block is not
  in the file: its condition is \<open>trend_guard\<close>, applied to the frame at that point.
\<close>

record datetime =
  dt_year :: nat
  dt_month :: nat
  dt_day :: nat
  dt_hour :: nat
  dt_minute :: nat
  dt_second :: nat

record report_env =
  clock_now :: datetime
  iso_week :: "int \<Rightarrow> nat"
  trend_guard :: "dataframe \<Rightarrow> bool"

definition digit_char :: "nat \<Rightarrow> char" where
  "digit_char n = ''0123456789'' ! (n mod 10)"

text \<open>The last \<open>w\<close> decimal digits of \<open>n\<close>, zero padded.\<close>

fun zpad :: "nat \<Rightarrow> nat \<Rightarrow> string" where
  "zpad 0 n = []"
| "zpad (Suc w) n = zpad w (n div 10) @ [digit_char n]"

text \<open>\<^verbatim>\<open>strftime('%Y-%m-%d %H:%M:%S')\<close>\<close>

definition strftime :: "datetime \<Rightarrow> string" where
  "strftime t =
     zpad 4 (dt_year t) @ ''-'' @ zpad 2 (dt_month t) @ ''-'' @ zpad 2 (dt_day t) @ '' '' @
     zpad 2 (dt_hour t) @ '':'' @ zpad 2 (dt_minute t) @ '':'' @ zpad 2 (dt_second t)"

text \<open>Python's \<^verbatim>\<open>/\<close> on two \<^verbatim>\<open>int\<close>s (here two lengths) raises on a zero divisor.\<close>

definition py_truediv :: "nat \<Rightarrow> nat \<Rightarrow> py_error + real" where
  "py_truediv a b = (if b = 0 then Inl ZeroDivisionError else Inr (real a / real b))"

definition bind_err :: "'e + 'a \<Rightarrow> ('a \<Rightarrow> 'e + 'b) \<Rightarrow> 'e + 'b" where
  "bind_err r f = (case r of Inl e \<Rightarrow> Inl e | Inr v \<Rightarrow> f v)"

text \<open>\<^verbatim>\<open>df[name]\<close> raises \<^verbatim>\<open>KeyError\<close> for a column the frame does not have.\<close>

definition require_column :: "dataframe \<Rightarrow> string \<Rightarrow> py_error + unit" where
  "require_column df name = (if name \<in> set (columns df) then Inr () else Inl (KeyError name))"

text \<open>\<^verbatim>\<open>.isin(['High', 'Critical'])\<close>\<close>

definition is_high_risk :: "tweet_row \<Rightarrow> bool" where
  "is_high_risk r \<longleftrightarrow> col_risk_level r = High \<or> col_risk_level r = Critical"

record summary =
  total_tweets_analyzed :: nat
  high_risk_tweets :: nat
  high_risk_percentage :: real
  average_sentiment :: "real option"
  average_conflict_intensity :: "real option"

text \<open>
  \<^verbatim>\<open>(high_risk_tweets / total_tweets * 100) if total_tweets > 0 else 0\<close>
\<close>

definition high_risk_percentage_of :: "nat \<Rightarrow> nat \<Rightarrow> py_error + real" where
  "high_risk_percentage_of high_risk total_tweets =
     (if total_tweets > 0 then bind_err (py_truediv high_risk total_tweets) (\<lambda>q. Inr (q * 100))
      else Inr 0)"

text \<open>The \<^verbatim>\<open>summary\<close> entry of \<^verbatim>\<open>generate_monthly_report\<close>, in evaluation order.\<close>

definition report_summary :: "dataframe \<Rightarrow> py_error + summary" where
  "report_summary df =
     (let total_tweets = length (rows df) in
      bind_err (require_column df ''risk_level'') (\<lambda>_.
      let high_risk = length (filter is_high_risk (rows df)) in
      bind_err (high_risk_percentage_of high_risk total_tweets) (\<lambda>pct.
      bind_err (require_column df ''vader_compound'') (\<lambda>_.
      bind_err (require_column df ''conflict_intensity'') (\<lambda>_.
      Inr \<lparr> total_tweets_analyzed = total_tweets,
            high_risk_tweets = high_risk,
            high_risk_percentage = pct,
            average_sentiment = mean_list (map col_vader_compound (rows df)),
            average_conflict_intensity =
              mean_list (map col_conflict_intensity (rows df)) \<rparr>)))))"

text \<open>
  \<^verbatim>\<open>groupby(key)\<close>: one group per key that occurs, keys ascending; a group is never
  empty, so the mean of a group is a number.
\<close>

definition groupby :: "('r \<Rightarrow> 'k::linorder) \<Rightarrow> 'r list \<Rightarrow> ('k \<times> 'r list) list" where
  "groupby f rs = map (\<lambda>k. (k, filter (\<lambda>r. f r = k) rs)) (sort (remdups (map f rs)))"

definition group_mean :: "real list \<Rightarrow> real" where
  "group_mean xs = sum_list xs / real (length xs)"

text \<open>
  \<^verbatim>\<open>lambda x: (x.isin(['High', 'Critical']).sum() / len(x) * 100)\<close>, a division of numpy
  numbers.
\<close>

definition risk_share :: "tweet_row list \<Rightarrow> real" where
  "risk_share g = real (length (filter is_high_risk g)) / real (length g) * 100"

text \<open>\<^verbatim>\<open>.round(2)\<close>: to two decimals, a tie to the even neighbour.\<close>

definition round2 :: "real \<Rightarrow> real" where
  "round2 x = of_int (round_half_even (x * 100)) / 100"

record region_stats =
  rs_vader_compound :: real
  rs_conflict_intensity :: real
  rs_risk_level :: real

definition regional_stats :: "dataframe \<Rightarrow> py_error + (string \<times> region_stats) list" where
  "regional_stats df =
     bind_err (require_column df ''region'') (\<lambda>_.
     bind_err (require_column df ''vader_compound'') (\<lambda>_.
     bind_err (require_column df ''conflict_intensity'') (\<lambda>_.
     bind_err (require_column df ''risk_level'') (\<lambda>_.
     Inr (map (\<lambda>(k, g).
            (k, \<lparr> rs_vader_compound = round2 (group_mean (map col_vader_compound g)),
                  rs_conflict_intensity = round2 (group_mean (map col_conflict_intensity g)),
                  rs_risk_level = round2 (risk_share g) \<rparr>))
          (groupby col_region (rows df)))))))"

text \<open>
  \<^verbatim>\<open>idxmin\<close> and \<^verbatim>\<open>idxmax\<close>: the label of the first smallest (largest) value; on an
  empty series they raise \<^verbatim>\<open>ValueError\<close>.
\<close>

fun first_best :: "(real \<Rightarrow> real \<Rightarrow> bool) \<Rightarrow> 'k \<times> real \<Rightarrow> ('k \<times> real) list \<Rightarrow> 'k" where
  "first_best better b [] = fst b"
| "first_best better b (x # xs) =
     (if better (snd x) (snd b) then first_best better x xs else first_best better b xs)"

definition idxmin :: "('k \<times> real) list \<Rightarrow> py_error + 'k" where
  "idxmin xs =
     (case xs of
        [] \<Rightarrow> Inl (ValueError ''attempt to get argmin of an empty sequence'')
      | x # rest \<Rightarrow> Inr (first_best (\<lambda>a b. a < b) x rest))"

definition idxmax :: "('k \<times> real) list \<Rightarrow> py_error + 'k" where
  "idxmax xs =
     (case xs of
        [] \<Rightarrow> Inl (ValueError ''attempt to get argmax of an empty sequence'')
      | x # rest \<Rightarrow> Inr (first_best (\<lambda>a b. a > b) x rest))"

text \<open>\<^verbatim>\<open>.nlargest(3, 'risk_level').index.tolist()\<close>: ties keep their order.\<close>

definition nlargest_risk :: "nat \<Rightarrow> (string \<times> region_stats) list \<Rightarrow> string list" where
  "nlargest_risk n stats = map fst (take n (sort_key (\<lambda>(k, st). - rs_risk_level st) stats))"

record key_findings =
  top_high_risk_regions :: "string list"
  most_negative_sentiment_region :: string
  highest_conflict_intensity_region :: string

text \<open>
  The source builds the dictionary of findings with \<^verbatim>\<open>nlargest\<close> first, then
  \<^verbatim>\<open>idxmin\<close>, then \<^verbatim>\<open>idxmax\<close>. \<open>nlargest_risk\<close> raises nothing, so the first
  error of the model is the first error of the source.
\<close>

definition find_key_findings :: "(string \<times> region_stats) list \<Rightarrow> py_error + key_findings" where
  "find_key_findings stats =
     bind_err (idxmin (map (\<lambda>(k, st). (k, rs_vader_compound st)) stats)) (\<lambda>neg_region.
     bind_err (idxmax (map (\<lambda>(k, st). (k, rs_conflict_intensity st)) stats)) (\<lambda>int_region.
     Inr \<lparr> top_high_risk_regions = nlargest_risk 3 stats,
           most_negative_sentiment_region = neg_region,
           highest_conflict_intensity_region = int_region \<rparr>))"

definition recommendation :: "string \<Rightarrow> string" where
  "recommendation region = ''Increase monitoring and peacekeeping presence in '' @ region"

text \<open>
  \<^verbatim>\<open>df['week'] = df['date'].dt.isocalendar().week\<close> changes the caller's frame. The dates
  of the model are time stamps already, so \<^verbatim>\<open>pd.to_datetime\<close> changes nothing.
\<close>

definition add_week :: "('a report_env_scheme) \<Rightarrow> dataframe \<Rightarrow> dataframe" where
  "add_week env df =
     df\<lparr> columns := (if ''week'' \<in> set (columns df) then columns df
                      else columns df @ [''week'']),
         rows := map (\<lambda>r. r\<lparr>col_week := iso_week env (col_date r)\<rparr>) (rows df) \<rparr>"

record trends =
  weekly_sentiment_trend :: "real list"
  weekly_intensity_trend :: "real list"
  weekly_risk_trend :: "real list"
  peak_risk_week :: nat

text \<open>The trend block; \<open>None\<close> is the empty dictionary the report starts with.\<close>

definition weekly_trends :: "dataframe \<Rightarrow> py_error + trends" where
  "weekly_trends df =
     bind_err (require_column df ''vader_compound'') (\<lambda>_.
     bind_err (require_column df ''conflict_intensity'') (\<lambda>_.
     bind_err (require_column df ''risk_level'') (\<lambda>_.
     let weekly = groupby col_week (rows df) in
     bind_err (idxmax (map (\<lambda>(w, g). (w, risk_share g)) weekly)) (\<lambda>peak.
     Inr \<lparr> weekly_sentiment_trend = map (\<lambda>(w, g). group_mean (map col_vader_compound g)) weekly,
           weekly_intensity_trend =
             map (\<lambda>(w, g). group_mean (map col_conflict_intensity g)) weekly,
           weekly_risk_trend = map (\<lambda>(w, g). risk_share g) weekly,
           peak_risk_week = peak \<rparr>))))"

definition trend_analysis :: "('a report_env_scheme) \<Rightarrow> dataframe \<Rightarrow> py_error + trends option" where
  "trend_analysis env df =
     (if ''date'' \<in> set (columns df) \<and> trend_guard env (add_week env df)
      then bind_err (weekly_trends (add_week env df)) (\<lambda>t. Inr (Some t))
      else Inr None)"

record report =
  month :: string
  year :: int
  generated_date :: string
  summary :: summary
  regional_analysis :: "(string \<times> region_stats) list"
  trends :: "trends option"
  recommendations :: "string list"
  key_findings :: key_findings
  early_warnings :: "warning list"

text \<open>
  \<^verbatim>\<open>DashboardGenerator.generate_monthly_report\<close> returns the report or the exception
  raised, together with the caller's frame as the call leaves it.
\<close>

definition generate_monthly_report ::
  "('a report_env_scheme) \<Rightarrow> ('b pandas_scheme) \<Rightarrow> dataframe \<Rightarrow> string \<Rightarrow> int
     \<Rightarrow> (py_error + report) \<times> dataframe" where
  "generate_monthly_report env pd df mo yr =
     (let stamp = strftime (clock_now env);
          head_part =
            bind_err (report_summary df) (\<lambda>summ.
            bind_err (regional_stats df) (\<lambda>stats.
            bind_err (find_key_findings stats) (\<lambda>kf. Inr (summ, stats, kf))))
      in case head_part of
           Inl e \<Rightarrow> (Inl e, df)
         | Inr (summ, stats, kf) \<Rightarrow>
             (let df' = (if ''date'' \<in> set (columns df) then add_week env df else df)
              in (bind_err (trend_analysis env df) (\<lambda>tr.
                    Inr \<lparr> month = mo,
                          year = yr,
                          generated_date = stamp,
                          summary = summ,
                          regional_analysis = stats,
                          trends = tr,
                          recommendations = map recommendation (top_high_risk_regions kf),
                          key_findings = kf,
                          early_warnings = generate_early_warnings pd df' \<rparr>),
                  df')))"

section \<open>Predicates and sample data for the properties\<close>









definition mk_row :: "int \<Rightarrow> string \<Rightarrow> real \<Rightarrow> real \<Rightarrow> RiskLevel \<Rightarrow> tweet_row" where
  "mk_row d reg v c lvl =
     \<lparr> col_date = d, col_region = reg, col_vader_compound = v,
       col_conflict_intensity = c, col_risk_level = lvl, col_week = 0 \<rparr>"

definition batch_columns :: "string list" where
  "batch_columns = [''date'', ''region'', ''vader_compound'', ''conflict_intensity'', ''risk_level'']"


text \<open>Eleven records of conflict intensity \<open>0.9\<close> and three of \<open>0.5\<close>.\<close>

definition cluster_batch :: dataframe where
  "cluster_batch =
     \<lparr> columns = batch_columns,
       rows = map (\<lambda>d. mk_row d ''Mombasa'' 0 0.9 High) [1, 2, 3, 4, 5, 6, 7, 8, 9, 10, 11] @
              map (\<lambda>d. mk_row d ''Kisumu'' 0 0.5 Low) [12, 13, 14] \<rparr>"



definition empty_batch :: dataframe where
  "empty_batch = \<lparr> columns = batch_columns, rows = [] \<rparr>"

definition report_batch :: dataframe where
  "report_batch =
     \<lparr> columns = batch_columns,
       rows = [mk_row 3 ''Nairobi'' (- 0.6) 0.8 Critical,
               mk_row 1 ''Mombasa'' 0.2 0.2 Low,
               mk_row 9 ''Nairobi'' (- 0.2) 0.4 Medium,
               mk_row 10 ''Kisumu'' (- 0.4) 0.6 High] \<rparr>"

text \<open>Two readings of the clock one second apart, and an environment for each.\<close>

definition clock_a :: datetime where
  "clock_a = \<lparr> dt_year = 2024, dt_month = 3, dt_day = 31,
               dt_hour = 23, dt_minute = 59, dt_second = 59 \<rparr>"

definition clock_b :: datetime where
  "clock_b = \<lparr> dt_year = 2024, dt_month = 4, dt_day = 1,
               dt_hour = 0, dt_minute = 0, dt_second = 0 \<rparr>"

definition stub_env :: "datetime \<Rightarrow> report_env" where
  "stub_env t =
     \<lparr> clock_now = t,
       iso_week = (\<lambda>d. nat (d div 7 mod 52) + 1),
       trend_guard = (\<lambda>df. True) \<rparr>"

definition stub_frame :: "real list list \<Rightarrow> frame" where
  "stub_frame vs = \<lparr> frame_columns = [''polarity_tb'', ''vader_compound''], frame_values = vs \<rparr>"

section \<open>Properties of floating-point rounding\<close>

lemma round_half_even_mono: "x \<le> y \<Longrightarrow> round_half_even x \<le> round_half_even y"
proof -
  assume xy: "x \<le> y"
  have bx: "\<lfloor>z\<rfloor> \<le> round_half_even z" "round_half_even z \<le> \<lfloor>z\<rfloor> + 1" for z
    by (auto simp: round_half_even_def Let_def)
  show ?thesis
  proof (cases "\<lfloor>x\<rfloor> < \<lfloor>y\<rfloor>")
    case True
    then show ?thesis
      using bx(2) [of x] bx(1) [of y] by linarith
  next
    case False
    with xy have eq: "\<lfloor>x\<rfloor> = \<lfloor>y\<rfloor>"
      using floor_mono [OF xy] by linarith
    with xy show ?thesis
      by (auto simp: round_half_even_def Let_def)
  qed
qed

lemma round_half_even_int: "round_half_even (of_int n) = n"
  by (simp add: round_half_even_def)

lemma grid_mono: "x \<le> y \<Longrightarrow> grid x \<le> grid y"
  by (simp add: grid_def round_half_even_mono divide_right_mono)

lemma grid_1: "grid 1 = 1"
  using round_half_even_int [of "2 ^ 52"] by (simp add: grid_def)

lemma grid_2: "grid 2 = 2"
  using round_half_even_int [of "2 * 2 ^ 52"] by (simp add: grid_def)

lemma grid_0: "grid 0 = 0"
  using round_half_even_int [of 0] by (simp add: grid_def)

lemma round_up_ge1: "1 \<le> x \<Longrightarrow> 1 \<le> round_up n x"
proof (induction n arbitrary: x)
  case 0
  then show ?case
    using grid_mono [of 1 x] by (simp add: grid_1)
next
  case (Suc n)
  show ?case
  proof (cases "x < 2")
    case True
    with Suc.prems show ?thesis
      using grid_mono [of 1 x] by (simp add: grid_1)
  next
    case False
    then have "1 \<le> x / 2" by simp
    from Suc.IH [OF this] False show ?thesis by simp
  qed
qed

lemma round_up_mono: "1 \<le> x \<Longrightarrow> x \<le> y \<Longrightarrow> round_up n x \<le> round_up n y"
proof (induction n arbitrary: x y)
  case 0
  then show ?case by (simp add: grid_mono)
next
  case (Suc n)
  show ?case
  proof (cases "y < 2")
    case True
    with Suc.prems show ?thesis by (simp add: grid_mono)
  next
    case y2: False
    show ?thesis
    proof (cases "x < 2")
      case True
      then have "grid x \<le> 2"
        using grid_mono [of x 2] by (simp add: grid_2)
      moreover have "1 \<le> round_up n (y / 2)"
        using y2 by (intro round_up_ge1) simp
      ultimately show ?thesis
        using True y2 by simp
    next
      case False
      then have "1 \<le> x / 2" "x / 2 \<le> y / 2"
        using Suc.prems by simp_all
      from Suc.IH [OF this] False y2 show ?thesis by simp
    qed
  qed
qed

lemma round_down_le1: "x \<le> 1 \<Longrightarrow> round_down n x \<le> 1"
proof (induction n arbitrary: x)
  case 0
  then show ?case
    using grid_mono [of x 1] by (simp add: grid_1)
next
  case (Suc n)
  show ?case
  proof (cases "1 \<le> x")
    case True
    with Suc.prems have "x = 1" by simp
    then show ?thesis by (simp add: grid_1)
  next
    case False
    show ?thesis
    proof (cases "2 * x \<le> 1")
      case True
      from Suc.IH [OF this] False show ?thesis by simp
    next
      case h: False
      have "round_down n (2 * x) \<le> 2"
      proof (cases n)
        case 0
        then show ?thesis
          using grid_mono [of "2 * x" 2] False by (simp add: grid_2)
      next
        case (Suc m)
        then show ?thesis
          using grid_mono [of "2 * x" 2] False h by (simp add: grid_2)
      qed
      with False show ?thesis by simp
    qed
  qed
qed

lemma round_down_ge0: "0 \<le> x \<Longrightarrow> 0 \<le> round_down n x"
proof (induction n arbitrary: x)
  case 0
  then show ?case
    using grid_mono [of 0 x] by (simp add: grid_0)
next
  case (Suc n)
  then show ?case
    using grid_mono [of 0 x] by (auto simp: grid_0)
qed

lemma round_down_mono: "x \<le> y \<Longrightarrow> round_down n x \<le> round_down n y"
proof (induction n arbitrary: x y)
  case 0
  then show ?case by (simp add: grid_mono)
next
  case (Suc n)
  show ?case
  proof (cases "1 \<le> x")
    case True
    with Suc.prems show ?thesis by (simp add: grid_mono)
  next
    case x1: False
    show ?thesis
    proof (cases "1 \<le> y")
      case True
      have "round_down (Suc n) x \<le> 1"
        using x1 by (intro round_down_le1) simp
      moreover have "1 \<le> grid y"
        using grid_mono [of 1 y] True by (simp add: grid_1)
      ultimately show ?thesis
        using True by simp
    next
      case False
      have "2 * x \<le> 2 * y"
        using Suc.prems by simp
      from Suc.IH [OF this] x1 False show ?thesis by simp
    qed
  qed
qed

lemma fl_pos_mono: "x \<le> y \<Longrightarrow> fl_pos x \<le> fl_pos y"
proof (cases "1 \<le> x")
  case True
  assume "x \<le> y"
  with True show ?thesis
    by (simp add: fl_pos_def round_up_mono)
next
  case x1: False
  assume xy: "x \<le> y"
  show ?thesis
  proof (cases "1 \<le> y")
    case True
    have "round_down 1022 x \<le> 1"
      using x1 by (intro round_down_le1) simp
    moreover have "1 \<le> round_up 1023 y"
      using True by (rule round_up_ge1)
    ultimately show ?thesis
      using x1 True by (simp add: fl_pos_def)
  next
    case False
    with x1 xy show ?thesis
      by (simp add: fl_pos_def round_down_mono)
  qed
qed

lemma fl_pos_ge0: "0 \<le> x \<Longrightarrow> 0 \<le> fl_pos x"
  using round_up_ge1 [of x 1023] round_down_ge0 [of x 1022]
  by (auto simp: fl_pos_def)

text \<open>Rounding to the nearest float never reverses an order.\<close>

lemma fl_mono: "x \<le> y \<Longrightarrow> fl x \<le> fl y"
proof -
  assume xy: "x \<le> y"
  consider "x < 0" "y < 0" | "x < 0" "0 \<le> y" | "0 \<le> x" "0 \<le> y"
    using xy by linarith
  then show ?thesis
  proof cases
    case 1
    with xy fl_pos_mono [of "- y" "- x"] show ?thesis
      by (simp add: fl_def)
  next
    case 2
    with fl_pos_ge0 [of "- x"] fl_pos_ge0 [of y] show ?thesis
      by (auto simp: fl_def)
  next
    case 3
    with xy fl_pos_mono [of x y] fl_pos_ge0 [of y] show ?thesis
      by (auto simp: fl_def)
  qed
qed

lemma fl_0: "fl 0 = 0"
  by (simp add: fl_def)

lemma fl_nonneg: "0 \<le> x \<Longrightarrow> 0 \<le> fl x"
  using fl_mono [of 0 x] by (simp add: fl_0)

section \<open>Properties of the risk level\<close>

lemma thresholds_ordered: "fl 0.3 \<le> fl 0.5" "fl 0.5 \<le> fl 0.7"
  by (rule fl_mono, simp)+

lemma thresholds_distinct: "fl 0.3 < fl 0.5" "fl 0.5 < fl 0.7"
  by code_simp+

lemma risk_score_mono:
  "c1 \<le> c2 \<Longrightarrow> risk_score s c1 \<le> risk_score s c2"
proof -
  assume "c1 \<le> c2"
  then have "fl c1 \<le> fl c2"
    by (rule fl_mono)
  moreover have "0 \<le> fl 0.6"
    by (rule fl_nonneg) simp
  ultimately have "fl c1 * fl 0.6 \<le> fl c2 * fl 0.6"
    by (rule mult_right_mono)
  then have "fmul (fl c1) (fl 0.6) \<le> fmul (fl c2) (fl 0.6)"
    unfolding fmul_def by (rule fl_mono)
  then show ?thesis
    unfolding risk_score_def fadd_def by (intro fl_mono add_left_mono)
qed

lemma level_rank_threshold_mono:
  "t3 \<le> t5 \<Longrightarrow> t5 \<le> t7 \<Longrightarrow> r1 \<le> r2 \<Longrightarrow>
   level_rank (if r1 > (t7::real) then Critical else if r1 > t5 then High
               else if r1 > t3 then Medium else Low)
   \<le> level_rank (if r2 > t7 then Critical else if r2 > t5 then High
               else if r2 > t3 then Medium else Low)"
  by auto

lemma analysis_risk_level:
  "risk_level (analyze_sentiment env txt) =
     calculate_risk_level (vader_compound (analyze_sentiment env txt))
       (conflict_intensity (analyze_sentiment env txt))"
  by (simp add: analyze_sentiment_def Let_def)

text \<open>
  Two inputs whose score is 0.3 in exact arithmetic: the floating-point score of the source
  is the next float above the float of \<^verbatim>\<open>0.3\<close>, and the level is Medium.
\<close>

lemma risk_level_rounding_cases:
  "calculate_risk_level 0.75 0 = Medium" "calculate_risk_level 0.45 0.2 = Medium"
  by code_simp+

text \<open>
  Claim C1. For every compound sentiment \<open>s\<close> and conflict intensity \<open>c\<close> the level
  is determined by the score \<^verbatim>\<open>abs(s) * 0.4 + c * 0.6\<close> as the source computes it, in
  floating point: Critical exactly when the score is above the float \<^verbatim>\<open>0.7\<close>, High
  exactly when it is above \<^verbatim>\<open>0.5\<close> and not above \<^verbatim>\<open>0.7\<close>, Medium exactly when it is
  above \<^verbatim>\<open>0.3\<close> and not above \<^verbatim>\<open>0.5\<close>, Low otherwise, so a score equal to a
  boundary is in the lower band; and the level a scored text carries is this function of
  the compound sentiment and the conflict intensity of the same result. No range
  restriction on \<open>s\<close> and \<open>c\<close> is needed.
\<close>

theorem calculate_risk_level_bands:
  "risk_score s c = fadd (fmul \<bar>fl s\<bar> (fl 0.4)) (fmul (fl c) (fl 0.6)) \<and>
   (calculate_risk_level s c = Critical \<longleftrightarrow> risk_score s c > fl 0.7) \<and>
   (calculate_risk_level s c = High \<longleftrightarrow>
      fl 0.5 < risk_score s c \<and> risk_score s c \<le> fl 0.7) \<and>
   (calculate_risk_level s c = Medium \<longleftrightarrow>
      fl 0.3 < risk_score s c \<and> risk_score s c \<le> fl 0.5) \<and>
   (calculate_risk_level s c = Low \<longleftrightarrow> risk_score s c \<le> fl 0.3) \<and>
   risk_level (analyze_sentiment env txt) =
     calculate_risk_level (vader_compound (analyze_sentiment env txt))
       (conflict_intensity (analyze_sentiment env txt))"
proof -
  note ord = thresholds_ordered
  have "risk_score s c = fadd (fmul \<bar>fl s\<bar> (fl 0.4)) (fmul (fl c) (fl 0.6))"
    by (simp add: risk_score_def)
  moreover have "calculate_risk_level s c = Critical \<longleftrightarrow> risk_score s c > fl 0.7"
    by (auto simp: calculate_risk_level_def Let_def)
  moreover have "calculate_risk_level s c = High \<longleftrightarrow>
      fl 0.5 < risk_score s c \<and> risk_score s c \<le> fl 0.7"
    by (auto simp: calculate_risk_level_def Let_def)
  moreover have "calculate_risk_level s c = Medium \<longleftrightarrow>
      fl 0.3 < risk_score s c \<and> risk_score s c \<le> fl 0.5"
    using ord by (auto simp: calculate_risk_level_def Let_def)
  moreover have "calculate_risk_level s c = Low \<longleftrightarrow> risk_score s c \<le> fl 0.3"
    using ord by (auto simp: calculate_risk_level_def Let_def)
  ultimately show ?thesis
    using analysis_risk_level [of env "txt"] by blast
qed

text \<open>
  Claim C6. With the sentiment fixed, a larger conflict intensity never gives a lower
  level, and a score that the source computes as exactly the float \<^verbatim>\<open>0.3\<close>,
  \<^verbatim>\<open>0.5\<close> or \<^verbatim>\<open>0.7\<close> gives Low, Medium and High.
\<close>

theorem calculate_risk_level_monotone:
  "(c1 \<le> c2 \<longrightarrow>
      level_rank (calculate_risk_level s c1) \<le> level_rank (calculate_risk_level s c2)) \<and>
   (risk_score s c = fl 0.3 \<longrightarrow> calculate_risk_level s c = Low) \<and>
   (risk_score s c = fl 0.5 \<longrightarrow> calculate_risk_level s c = Medium) \<and>
   (risk_score s c = fl 0.7 \<longrightarrow> calculate_risk_level s c = High)"
proof -
  have "c1 \<le> c2 \<Longrightarrow>
      level_rank (calculate_risk_level s c1) \<le> level_rank (calculate_risk_level s c2)"
    unfolding calculate_risk_level_def Let_def
    by (intro level_rank_threshold_mono thresholds_ordered risk_score_mono)
  moreover have "risk_score s c = fl 0.3 \<Longrightarrow> calculate_risk_level s c = Low"
    using thresholds_ordered by (simp add: calculate_risk_level_def)
  moreover have "risk_score s c = fl 0.5 \<Longrightarrow> calculate_risk_level s c = Medium"
    using thresholds_ordered thresholds_distinct by (simp add: calculate_risk_level_def)
  moreover have "risk_score s c = fl 0.7 \<Longrightarrow> calculate_risk_level s c = High"
    using thresholds_distinct by (simp add: calculate_risk_level_def)
  ultimately show ?thesis by blast
qed

theorem calculate_risk_level_monotone_witness:
  "((0.2::real) \<le> 0.8 \<and>
      level_rank (calculate_risk_level 0.5 0.2) \<le> level_rank (calculate_risk_level 0.5 0.8)) \<and>
   calculate_risk_level 0.5 0.2 = Medium \<and> calculate_risk_level 0.5 0.8 = High \<and>
   (risk_score 0 0.5 = fl 0.3 \<and> calculate_risk_level 0 0.5 = Low) \<and>
   (risk_score 0.5 0.5 = fl 0.5 \<and> calculate_risk_level 0.5 0.5 = Medium) \<and>
   (risk_score 1 0.5 = fl 0.7 \<and> calculate_risk_level 1 0.5 = High)"
proof -
  have e: "calculate_risk_level 0.5 0.2 = Medium" "calculate_risk_level 0.5 0.8 = High"
    by code_simp+
  have b: "risk_score 0 0.5 = fl 0.3" "risk_score 0.5 0.5 = fl 0.5" "risk_score 1 0.5 = fl 0.7"
    by code_simp+
  from e b calculate_risk_level_monotone [of "0.2" "0.8" "0.5" 0]
    calculate_risk_level_monotone [of 0 0 0 "0.5"]
    calculate_risk_level_monotone [of 0 0 "0.5" "0.5"]
    calculate_risk_level_monotone [of 0 0 1 "0.5"]
  show ?thesis by simp
qed

section \<open>Properties of the conflict intensity\<close>

lemma str_contains_sublist: "str_contains w t \<longleftrightarrow> sublist w t"
  by (induction t) (simp_all add: sublist_Cons_right)

lemma conflict_count_card:
  "conflict_count txt = card {w \<in> set conflict_words. sublist w (lower txt)}"
proof -
  have d: "distinct conflict_words"
    by (simp add: conflict_words_def)
  show ?thesis
    unfolding conflict_count_def str_contains_sublist
    using distinct_length_filter [OF d, of "\<lambda>w. sublist w (lower txt)"]
    by (simp add: Int_def conj_commute)
qed

lemma conflict_count_scenario:
  "conflict_count ''Protest planned tomorrow, violence expected'' = 2"
  by code_simp

text \<open>
  Claim C5. The conflict intensity of a scored text is \<open>min (k / 5) 1\<close>, where \<open>k\<close> is
  the number of words of the keyword list that occur as a contiguous substring of the
  lower-cased raw text; the scenario text has two hits and intensity 0.4.
\<close>

theorem conflict_intensity_keyword_share:
  "conflict_intensity (analyze_sentiment env txt) =
     min (real (card {w \<in> set conflict_words. sublist w (lower txt)}) / 5) 1 \<and>
   conflict_intensity
     (analyze_sentiment env ''Protest planned tomorrow, violence expected'') = 0.4 \<and>
   conflict_intensity
     (analyze_sentiment env ''Protest planned tomorrow, violence expected'') \<ge> 0.4"
proof -
  have gen: "conflict_intensity (analyze_sentiment env t) =
      min (real (conflict_count t) / 5) 1" for t
    by (simp add: analyze_sentiment_def Let_def conflict_intensity_of_def)
  have "conflict_intensity (analyze_sentiment env txt) =
      min (real (card {w \<in> set conflict_words. sublist w (lower txt)}) / 5) 1"
    by (simp add: gen conflict_count_card)
  moreover have "conflict_intensity
      (analyze_sentiment env ''Protest planned tomorrow, violence expected'') = 0.4"
    unfolding gen conflict_count_scenario by simp
  ultimately show ?thesis by simp
qed

section \<open>Properties of the text normalizer\<close>















lemma strip_chars_digit_in_www: "strip_chars ''ww1wabc'' = ''wwwabc''"
  by code_simp

lemma strip_chars_www: "strip_chars ''wwwabc'' = []"
  by code_simp

text \<open>
  The second pass removes a token that the first pass produced, for every choice of the
  libraries that treat the letters \<open>wwwabc\<close> as one ordinary word: the digit that kept the
  URL pattern from matching is gone after the first pass.
\<close>

lemma clean_text_second_pass_removes_token:
  assumes "demojize env ''wwwabc'' = ''wwwabc''"
    and "word_tokenize env ''wwwabc'' = [''wwwabc'']"
    and "''wwwabc'' \<notin> set (stopwords_english env)"
    and "lemmatize env ''wwwabc'' = ''wwwabc''"
    and "word_tokenize env (demojize env []) = []"
  shows "clean_text env (PyStr ''ww1wabc'') = ''wwwabc''"
    and "clean_text env (PyStr (clean_text env (PyStr ''ww1wabc''))) = []"
proof -
  show 1: "clean_text env (PyStr ''ww1wabc'') = ''wwwabc''"
    using assms(1-4)
    by (simp add: clean_str_def strip_chars_digit_in_www keep_token_def stop_words_def)
  show "clean_text env (PyStr (clean_text env (PyStr ''ww1wabc''))) = []"
    unfolding 1 using assms(5)
    by (simp add: clean_str_def strip_chars_www)
qed


subsection \<open>Idempotence for well-behaved libraries\<close>















text \<open>
  Claim C8 as stated fails: \<open>ok\<close> is not a stop word and is dropped, and the stop word
  \<open>is\<close> of length two is dropped as well.
\<close>

theorem short_token_dropped:
  "''ok'' \<notin> set (stopwords_english stub_nlp) \<and> \<not> keep_token stub_nlp ''ok'' \<and>
   ''is'' \<in> set (stopwords_english stub_nlp) \<and> length ''is'' \<le> 2 \<and>
   \<not> keep_token stub_nlp ''is''"
  by (simp add: keep_token_def stop_words_def stub_nlp_def)

text \<open>
  Claim C8, amended. A token survives the filter exactly when it is longer than two
  characters and is not a stop word or is in the allowlist. So every word of the allowlist
  survives, and a token of at most two characters is dropped whether it is a stop word or not.
\<close>

theorem keep_token_rule:
  "(keep_token env t \<longleftrightarrow>
      (t \<notin> set (stopwords_english env) \<or> t \<in> set conflict_keywords) \<and> length t > 2) \<and>
   (t \<in> set conflict_keywords \<longrightarrow> keep_token env t) \<and>
   (length t \<le> 2 \<longrightarrow> \<not> keep_token env t)"
proof -
  have "keep_token env t \<longleftrightarrow>
      (t \<notin> set (stopwords_english env) \<or> t \<in> set conflict_keywords) \<and> length t > 2"
    by (auto simp: keep_token_def stop_words_def)
  moreover have "t \<in> set conflict_keywords \<Longrightarrow> keep_token env t"
    by (auto simp: keep_token_def stop_words_def conflict_keywords_def)
  moreover have "length t \<le> 2 \<Longrightarrow> \<not> keep_token env t"
    by (simp add: keep_token_def)
  ultimately show ?thesis by blast
qed

theorem keep_token_rule_witness:
  "''war'' \<in> set (stopwords_english (stub_nlp\<lparr>stopwords_english := [''the'', ''war'']\<rparr>)) \<and>
   ''war'' \<in> set conflict_keywords \<and>
   keep_token (stub_nlp\<lparr>stopwords_english := [''the'', ''war'']\<rparr>) ''war'' \<and>
   length ''ok'' \<le> 2 \<and>
   \<not> keep_token (stub_nlp\<lparr>stopwords_english := [''the'', ''war'']\<rparr>) ''ok''"
  using keep_token_rule [of "stub_nlp\<lparr>stopwords_english := [''the'', ''war'']\<rparr>" "''war''"]
    keep_token_rule [of "stub_nlp\<lparr>stopwords_english := [''the'', ''war'']\<rparr>" "''ok''"]
  by (simp add: conflict_keywords_def)

section \<open>Properties of the classifier\<close>

lemma train_ok_model:
  assumes "train lib p X y = (p', None)"
  shows "\<exists>m. model p' = Some m \<and>
    scaler p' = fst (scaler_fit_transform lib (scaler p) (frame_values X))"
  using assms
  by (auto simp: train_def Let_def split: prod.splits option.splits if_splits)

lemma stub_train_result:
  "train stub_sklearn (init_predictor stub_sklearn ''xgboost'')
     (stub_frame [[1, 2], [3, 6]]) [0, 1] =
   (\<lparr> model_type = ''xgboost'', model = Some 1, scaler = 3, feature_importance = None,
      models = [(''random_forest'', 0), (''gradient_boosting'', 0),
                (''xgboost'', 1), (''lightgbm'', 0)] \<rparr>, None)"
  by (simp add: train_def init_predictor_def stub_sklearn_def stub_frame_def Let_def)

text \<open>
  Claim C2. A predictor without a model, as \<open>__init__\<close> leaves it, answers \<open>predict\<close>
  with the error \<^verbatim>\<open>ValueError("Model not trained. Call train() first.")\<close>, and
  \<open>predict\<close> raises nothing else. After a \<open>train\<close> that returned, the predictor has a
  model and the scaler fitted by that call, and \<open>predict\<close> returns the labels and the
  probabilities of that model on the input transformed by that scaler.
\<close>

theorem predict_untrained_or_trained:
  "(model p = None \<longrightarrow>
      predict lib p X = Inl (ValueError ''Model not trained. Call train() first.'')) \<and>
   model (init_predictor lib mt) = None \<and>
   (predict lib p X = Inl e \<longrightarrow>
      e = ValueError ''Model not trained. Call train() first.'' \<and> model p = None) \<and>
   (train lib p X_train y_train = (p', None) \<longrightarrow>
      (\<exists>m. model p' = Some m \<and>
           scaler p' = fst (scaler_fit_transform lib (scaler p) (frame_values X_train)) \<and>
           predict lib p' X =
             Inr (model_predict lib m (scaler_transform lib (scaler p') (frame_values X)),
                  model_predict_proba lib m
                    (scaler_transform lib (scaler p') (frame_values X)))))"
proof -
  have a: "model p = None \<Longrightarrow>
      predict lib p X = Inl (ValueError ''Model not trained. Call train() first.'')"
    by (simp add: predict_def)
  have b: "model (init_predictor lib mt) = None"
    by (simp add: init_predictor_def)
  have c: "predict lib p X = Inl e \<Longrightarrow>
      e = ValueError ''Model not trained. Call train() first.'' \<and> model p = None"
    by (auto simp: predict_def Let_def split: option.splits)
  have d: "\<exists>m. model p' = Some m \<and>
           scaler p' = fst (scaler_fit_transform lib (scaler p) (frame_values X_train)) \<and>
           predict lib p' X =
             Inr (model_predict lib m (scaler_transform lib (scaler p') (frame_values X)),
                  model_predict_proba lib m
                    (scaler_transform lib (scaler p') (frame_values X)))"
    if t: "train lib p X_train y_train = (p', None)"
  proof -
    from train_ok_model [OF t] obtain m where m: "model p' = Some m"
      "scaler p' = fst (scaler_fit_transform lib (scaler p) (frame_values X_train))"
      by blast
    then show ?thesis
      by (simp add: predict_def Let_def)
  qed
  from a b c d show ?thesis by blast
qed

theorem predict_untrained_or_trained_witness:
  "model (init_predictor stub_sklearn ''xgboost'') = None \<and>
   predict stub_sklearn (init_predictor stub_sklearn ''xgboost'') (stub_frame [[1, 2], [5, 6]]) =
     Inl (ValueError ''Model not trained. Call train() first.'') \<and>
   train stub_sklearn (init_predictor stub_sklearn ''xgboost'')
       (stub_frame [[1, 2], [3, 6]]) [0, 1] =
     (\<lparr> model_type = ''xgboost'', model = Some 1, scaler = 3, feature_importance = None,
        models = [(''random_forest'', 0), (''gradient_boosting'', 0),
                  (''xgboost'', 1), (''lightgbm'', 0)] \<rparr>, None) \<and>
   predict stub_sklearn
       \<lparr> model_type = ''xgboost'', model = Some 1, scaler = 3, feature_importance = None,
         models = [(''random_forest'', 0), (''gradient_boosting'', 0),
                   (''xgboost'', 1), (''lightgbm'', 0)] \<rparr>
       (stub_frame [[1, 2], [5, 6]]) =
     Inr ([0, 1], [[1, 0], [0, 1]])"
proof -
  let ?p0 = "init_predictor stub_sklearn ''xgboost''"
  let ?p1 = "\<lparr> model_type = ''xgboost'', model = Some (1::real), scaler = (3::real),
      feature_importance = None,
      models = [(''random_forest'', 0), (''gradient_boosting'', 0),
                (''xgboost'', 1), (''lightgbm'', 0)] \<rparr>"
  have n: "model ?p0 = None"
    by (simp add: init_predictor_def)
  note inst = predict_untrained_or_trained
    [of ?p0 stub_sklearn "stub_frame [[1, 2], [5, 6]]" "''xgboost''"
      "ValueError ''Model not trained. Call train() first.''"
      "stub_frame [[1, 2], [3, 6]]" "[0, 1]" ?p1]
  from inst n have u: "predict stub_sklearn ?p0 (stub_frame [[1, 2], [5, 6]]) =
      Inl (ValueError ''Model not trained. Call train() first.'')"
    by blast
  from inst stub_train_result
  obtain m where m: "model ?p1 = Some m"
    and pr: "predict stub_sklearn ?p1 (stub_frame [[1, 2], [5, 6]]) =
      Inr (model_predict stub_sklearn m
             (scaler_transform stub_sklearn (scaler ?p1) (frame_values (stub_frame [[1, 2], [5, 6]]))),
           model_predict_proba stub_sklearn m
             (scaler_transform stub_sklearn (scaler ?p1) (frame_values (stub_frame [[1, 2], [5, 6]]))))"
    by blast
  from m have "m = 1" by simp
  with pr have "predict stub_sklearn ?p1 (stub_frame [[1, 2], [5, 6]]) =
      Inr ([0, 1], [[1, 0], [0, 1]])"
    by (simp add: stub_sklearn_def stub_frame_def)
  with n u stub_train_result show ?thesis by simp
qed

section \<open>Properties of the early-warning detector\<close>



text \<open>
  With fewer than 14 records the earlier window is the first seven records of the sorted
  batch (all of them, if there are at most seven), so it overlaps the recent window.
\<close>

lemma previous_window_short: "length xs \<le> 14 \<Longrightarrow> head 7 (tail 14 xs) = take 7 xs"
  by (simp add: head_def tail_def)


lemma drop_is_no_cluster:
  "filter (\<lambda>w. wtype w = ''high_intensity_cluster'') (sentiment_drop_warnings pd df) = []"
  by (simp add: sentiment_drop_warnings_def Let_def split: option.splits)

text \<open>
  Where all dates differ there is one ascending order, so every sort agrees with the
  stable one.
\<close>

lemma filter_key_single:
  "distinct (map f xs) \<Longrightarrow> k \<in> set xs \<Longrightarrow> filter (\<lambda>x. f k = f x) xs = [k]"
proof (induction xs)
  case Nil
  then show ?case by simp
next
  case (Cons a xs)
  show ?case
  proof (cases "k = a")
    case True
    have "filter (\<lambda>x. f a = f x) xs = []"
      using Cons.prems(1) by (auto simp: filter_empty_conv)
    with True show ?thesis by simp
  next
    case False
    with Cons.prems have kx: "k \<in> set xs" by simp
    then have "f k \<in> f ` set xs" by simp
    with Cons.prems(1) have "f k \<noteq> f a" by auto
    with Cons kx show ?thesis by simp
  qed
qed

lemma date_sort_unique:
  assumes "mset ys = mset xs" and "sorted (map col_date ys)"
    and "distinct (map col_date xs)"
  shows "ys = sort_key col_date xs"
proof -
  have "mset (map col_date ys) = mset (map col_date xs)"
    using assms(1) by simp
  with assms(3) have dy: "distinct (map col_date ys)"
    by (metis mset_eq_imp_distinct_iff)
  have "filter (\<lambda>x. col_date k = col_date x) ys = filter (\<lambda>x. col_date k = col_date x) xs"
    if "k \<in> set ys" for k
  proof -
    from that assms(1) have "k \<in> set xs"
      by (metis mset_eq_setD)
    with that show ?thesis
      by (simp add: filter_key_single [OF dy] filter_key_single [OF assms(3)])
  qed
  with assms(1,2) show ?thesis
    by (intro properties_for_sort_key [symmetric]) auto
qed







lemma cluster_batch_count:
  "length (filter (\<lambda>r. col_conflict_intensity r > 0.7) (rows cluster_batch)) = 11"
  by code_simp

text \<open>
  Claim C4. For a batch with the column \<^verbatim>\<open>conflict_intensity\<close>, the warnings of type
  \<^verbatim>\<open>high_intensity_cluster\<close> are exactly one warning of severity \<^verbatim>\<open>critical\<close>
  whose message names the count if more than 10 records have an intensity above 0.7, and
  none otherwise.
\<close>

theorem intensity_cluster_rule:
  "''conflict_intensity'' \<in> set (columns df) \<Longrightarrow>
   filter (\<lambda>w. wtype w = ''high_intensity_cluster'') (generate_early_warnings pd df) =
     (if length (filter (\<lambda>r. col_conflict_intensity r > 0.7) (rows df)) > 10
      then [\<lparr> wtype = ''high_intensity_cluster'', severity = ''critical'',
              message = [IntD (length (filter (\<lambda>r. col_conflict_intensity r > 0.7) (rows df))),
                         Lit '' high-intensity conflict mentions detected''],
              suggested_action = ''Deploy rapid response teams to affected regions'' \<rparr>]
      else [])"
  by (simp add: generate_early_warnings_def intensity_cluster_warnings_def
      drop_is_no_cluster high_intensity_count_def)

theorem intensity_cluster_rule_witness:
  "''conflict_intensity'' \<in> set (columns cluster_batch) \<and>
   length (filter (\<lambda>r. col_conflict_intensity r > 0.7) (rows cluster_batch)) = 11 \<and>
   length (rows cluster_batch) = 14 \<and>
   filter (\<lambda>w. wtype w = ''high_intensity_cluster'')
       (generate_early_warnings stub_pandas cluster_batch) =
     [\<lparr> wtype = ''high_intensity_cluster'', severity = ''critical'',
        message = [IntD 11, Lit '' high-intensity conflict mentions detected''],
        suggested_action = ''Deploy rapid response teams to affected regions'' \<rparr>]"
proof -
  have h: "''conflict_intensity'' \<in> set (columns cluster_batch)"
    by (simp add: cluster_batch_def batch_columns_def)
  have l: "length (rows cluster_batch) = 14"
    by (simp add: cluster_batch_def)
  have "filter (\<lambda>w. wtype w = ''high_intensity_cluster'')
      (generate_early_warnings stub_pandas cluster_batch) =
     [\<lparr> wtype = ''high_intensity_cluster'', severity = ''critical'',
        message = [IntD 11, Lit '' high-intensity conflict mentions detected''],
        suggested_action = ''Deploy rapid response teams to affected regions'' \<rparr>]"
    unfolding intensity_cluster_rule [OF h] cluster_batch_count by simp
  with h l cluster_batch_count show ?thesis by simp
qed

section \<open>Properties of the monthly report\<close>

lemma percentage_value:
  "high_risk_percentage_of h t = Inr (if t > 0 then real h / real t * 100 else 0)"
  by (simp add: high_risk_percentage_of_def py_truediv_def bind_err_def)

lemma report_summary_no_zero_division: "report_summary df \<noteq> Inl ZeroDivisionError"
  by (simp add: report_summary_def percentage_value bind_err_def require_column_def Let_def)

lemma regional_stats_no_zero_division: "regional_stats df \<noteq> Inl ZeroDivisionError"
  by (simp add: regional_stats_def bind_err_def require_column_def)

lemma find_key_findings_no_zero_division: "find_key_findings st \<noteq> Inl ZeroDivisionError"
  by (simp add: find_key_findings_def bind_err_def idxmin_def idxmax_def split: list.splits)

lemma trend_analysis_no_zero_division: "trend_analysis env df \<noteq> Inl ZeroDivisionError"
  by (simp add: trend_analysis_def weekly_trends_def bind_err_def idxmax_def
      require_column_def Let_def split: list.splits)

lemma bind_err_Inl_iff:
  "bind_err r f = Inl e \<longleftrightarrow> r = Inl e \<or> (\<exists>v. r = Inr v \<and> f v = Inl e)"
  by (cases r) (simp_all add: bind_err_def)

lemma report_no_zero_division:
  "fst (generate_monthly_report env pd df mo yr) \<noteq> Inl ZeroDivisionError"
  using report_summary_no_zero_division [of df] regional_stats_no_zero_division [of df]
    find_key_findings_no_zero_division trend_analysis_no_zero_division [of env df]
  by (auto simp: generate_monthly_report_def Let_def bind_err_Inl_iff
      split: sum.splits prod.splits)

lemma empty_summary:
  "rows df = [] \<Longrightarrow> ''risk_level'' \<in> set (columns df) \<Longrightarrow>
   ''vader_compound'' \<in> set (columns df) \<Longrightarrow> ''conflict_intensity'' \<in> set (columns df) \<Longrightarrow>
   report_summary df =
     Inr \<lparr> total_tweets_analyzed = 0, high_risk_tweets = 0, high_risk_percentage = 0,
           average_sentiment = None, average_conflict_intensity = None \<rparr>"
  by (simp add: report_summary_def percentage_value bind_err_def require_column_def
      Let_def mean_list_def)

text \<open>
  Claim C10. The percentage of the summary is computed without a division when the batch
  has no record and is then 0; with records it is the share times 100. Neither the summary
  nor the report as a whole ever raises \<^verbatim>\<open>ZeroDivisionError\<close>, and the summary of an
  empty batch that has the three columns is all zeros with undefined means.
\<close>

theorem high_risk_percentage_guarded:
  "high_risk_percentage_of h t = Inr (if t > 0 then real h / real t * 100 else 0) \<and>
   report_summary df \<noteq> Inl ZeroDivisionError \<and>
   fst (generate_monthly_report env pd df mo yr) \<noteq> Inl ZeroDivisionError \<and>
   (rows df = [] \<and> ''risk_level'' \<in> set (columns df) \<and>
    ''vader_compound'' \<in> set (columns df) \<and> ''conflict_intensity'' \<in> set (columns df) \<longrightarrow>
      report_summary df =
        Inr \<lparr> total_tweets_analyzed = 0, high_risk_tweets = 0, high_risk_percentage = 0,
              average_sentiment = None, average_conflict_intensity = None \<rparr>)"
  using percentage_value [of h t] report_summary_no_zero_division [of df]
    report_no_zero_division [of env pd df mo yr] empty_summary [of df]
  by blast

theorem high_risk_percentage_guarded_witness:
  "rows empty_batch = [] \<and> ''risk_level'' \<in> set (columns empty_batch) \<and>
   ''vader_compound'' \<in> set (columns empty_batch) \<and>
   ''conflict_intensity'' \<in> set (columns empty_batch) \<and>
   high_risk_percentage_of 0 0 = Inr 0 \<and>
   report_summary empty_batch =
     Inr \<lparr> total_tweets_analyzed = 0, high_risk_tweets = 0, high_risk_percentage = 0,
           average_sentiment = None, average_conflict_intensity = None \<rparr>"
proof -
  have h: "rows empty_batch = [] \<and> ''risk_level'' \<in> set (columns empty_batch) \<and>
      ''vader_compound'' \<in> set (columns empty_batch) \<and>
      ''conflict_intensity'' \<in> set (columns empty_batch)"
    by (simp add: empty_batch_def batch_columns_def)
  from h high_risk_percentage_guarded [of 0 0 empty_batch "stub_env clock_a" stub_pandas
      "''March''" 2024]
  show ?thesis by simp
qed

subsection \<open>Determinism\<close>

lemma report_clock:
  assumes "iso_week e1 = iso_week e2" and "trend_guard e1 = trend_guard e2"
  shows "fst (generate_monthly_report e2 pd df mo yr) =
     map_sum id (\<lambda>r. r\<lparr>generated_date := strftime (clock_now e2)\<rparr>)
       (fst (generate_monthly_report e1 pd df mo yr))"
  using assms
  by (auto simp: generate_monthly_report_def Let_def trend_analysis_def add_week_def
      bind_err_def split: sum.splits prod.splits)

lemma groupby_map:
  assumes "\<And>r. k (f r) = k r"
  shows "groupby k (map f rs) = map (\<lambda>(key, g). (key, map f g)) (groupby k rs)"
proof -
  have 1: "map k (map f rs) = map k rs"
    using assms by simp
  have 2: "filter (\<lambda>r. k r = key) (map f rs) = map f (filter (\<lambda>r. k r = key) rs)" for key
    using assms by (simp add: filter_map comp_def)
  show ?thesis
    unfolding groupby_def 1 2 by simp
qed

lemma columns_add_week:
  "name \<noteq> ''week'' \<Longrightarrow>
   name \<in> set (columns (add_week env df)) \<longleftrightarrow> name \<in> set (columns df)"
  by (simp add: add_week_def)

lemma require_column_add_week:
  "name \<noteq> ''week'' \<Longrightarrow> require_column (add_week env df) name = require_column df name"
  by (simp add: require_column_def columns_add_week)

lemma rows_add_week:
  "rows (add_week env df) = map (\<lambda>r. r\<lparr>col_week := iso_week env (col_date r)\<rparr>) (rows df)"
  by (simp add: add_week_def)

lemma is_high_risk_week: "is_high_risk (r\<lparr>col_week := w\<rparr>) = is_high_risk r"
  by (simp add: is_high_risk_def)

lemma risk_share_week: "risk_share (map (\<lambda>r. r\<lparr>col_week := w r\<rparr>) g) = risk_share g"
  by (simp add: risk_share_def filter_map comp_def is_high_risk_week)

lemma report_summary_add_week: "report_summary (add_week env df) = report_summary df"
  unfolding report_summary_def
  by (simp add: require_column_add_week rows_add_week filter_map comp_def is_high_risk_week)

lemma regional_stats_add_week: "regional_stats (add_week env df) = regional_stats df"
proof -
  have g: "groupby col_region (rows (add_week env df)) =
      map (\<lambda>(key, g). (key, map (\<lambda>r. r\<lparr>col_week := iso_week env (col_date r)\<rparr>) g))
        (groupby col_region (rows df))"
    unfolding rows_add_week by (rule groupby_map) simp
  show ?thesis
    unfolding regional_stats_def g
    by (simp add: require_column_add_week comp_def case_prod_unfold risk_share_week)
qed

lemma add_week_idem: "add_week env (add_week env df) = add_week env df"
  by (simp add: add_week_def comp_def)

lemma trend_analysis_add_week: "trend_analysis env (add_week env df) = trend_analysis env df"
  by (simp add: trend_analysis_def add_week_idem columns_add_week)

lemma report_of_add_week:
  assumes "''date'' \<in> set (columns df)"
  shows "generate_monthly_report env pd (add_week env df) mo yr =
     (fst (generate_monthly_report env pd df mo yr), add_week env df)"
  using assms
  by (simp add: generate_monthly_report_def Let_def report_summary_add_week
      regional_stats_add_week trend_analysis_add_week add_week_idem columns_add_week
      split: sum.splits prod.splits)

lemma frame_after_report:
  "snd (generate_monthly_report env pd df mo yr) = df \<or>
   (''date'' \<in> set (columns df) \<and>
    snd (generate_monthly_report env pd df mo yr) = add_week env df)"
  by (simp add: generate_monthly_report_def Let_def split: sum.splits prod.splits)

lemma report_rerun:
  assumes "iso_week e1 = iso_week e2" and "trend_guard e1 = trend_guard e2"
  shows "fst (generate_monthly_report e2 pd (snd (generate_monthly_report e1 pd df mo yr)) mo yr) =
     map_sum id (\<lambda>r. r\<lparr>generated_date := strftime (clock_now e2)\<rparr>)
       (fst (generate_monthly_report e1 pd df mo yr))"
  using frame_after_report [of e1 pd df mo yr] report_clock [OF assms, of pd df mo yr]
    report_clock [OF assms, of pd "add_week e1 df" mo yr]
    report_of_add_week [of df e1 pd mo yr]
  by auto

lemma report_stamp_a:
  "map_sum id generated_date
     (fst (generate_monthly_report (stub_env clock_a) stub_pandas report_batch ''March'' 2024)) =
   Inr ''2024-03-31 23:59:59''"
  by code_simp

lemma report_stamp_b:
  "map_sum id generated_date
     (fst (generate_monthly_report (stub_env clock_b) stub_pandas report_batch ''March'' 2024)) =
   Inr ''2024-04-01 00:00:00''"
  by code_simp

text \<open>
  Claim C9 as stated fails: two runs over the same batch that read the clock one second
  apart return different reports.
\<close>

theorem report_differs_with_clock:
  "fst (generate_monthly_report (stub_env clock_a) stub_pandas report_batch ''March'' 2024) \<noteq>
   fst (generate_monthly_report (stub_env clock_b) stub_pandas report_batch ''March'' 2024)"
proof
  assume "fst (generate_monthly_report (stub_env clock_a) stub_pandas report_batch ''March'' 2024) =
    fst (generate_monthly_report (stub_env clock_b) stub_pandas report_batch ''March'' 2024)"
  then have "map_sum id generated_date
      (fst (generate_monthly_report (stub_env clock_a) stub_pandas report_batch ''March'' 2024)) =
    map_sum id generated_date
      (fst (generate_monthly_report (stub_env clock_b) stub_pandas report_batch ''March'' 2024))"
    by simp
  then show False
    unfolding report_stamp_a report_stamp_b by simp
qed

text \<open>
  Claim C9, amended. The risk level of a text is a function of the text and of the
  compound score the sentiment library gives it. Two runs of the report over the same batch,
  month and year, with the same week numbering and trend condition, raise the same error or
  return reports that agree in every field but \<open>generated_date\<close>, which is the formatted
  reading of the clock of each run; the same holds when the second run gets the caller's
  frame as the first run left it.
\<close>

theorem report_deterministic_up_to_clock:
  assumes "iso_week e1 = iso_week e2" and "trend_guard e1 = trend_guard e2"
  shows "risk_level (analyze_sentiment env t) =
       calculate_risk_level (compound (polarity_scores env t)) (conflict_intensity_of t) \<and>
     fst (generate_monthly_report e2 pd df mo yr) =
       map_sum id (\<lambda>r. r\<lparr>generated_date := strftime (clock_now e2)\<rparr>)
         (fst (generate_monthly_report e1 pd df mo yr)) \<and>
     fst (generate_monthly_report e2 pd (snd (generate_monthly_report e1 pd df mo yr)) mo yr) =
       map_sum id (\<lambda>r. r\<lparr>generated_date := strftime (clock_now e2)\<rparr>)
         (fst (generate_monthly_report e1 pd df mo yr))"
proof -
  have "risk_level (analyze_sentiment env t) =
      calculate_risk_level (compound (polarity_scores env t)) (conflict_intensity_of t)"
    by (simp add: analyze_sentiment_def Let_def)
  with report_clock [OF assms, of pd df mo yr] report_rerun [OF assms, of pd df mo yr]
  show ?thesis
    by simp
qed

theorem report_deterministic_up_to_clock_witness:
  "iso_week (stub_env clock_a) = iso_week (stub_env clock_b) \<and>
   trend_guard (stub_env clock_a) = trend_guard (stub_env clock_b) \<and>
   fst (generate_monthly_report (stub_env clock_b) stub_pandas report_batch ''March'' 2024) =
     map_sum id (\<lambda>r. r\<lparr>generated_date := ''2024-04-01 00:00:00''\<rparr>)
       (fst (generate_monthly_report (stub_env clock_a) stub_pandas report_batch ''March'' 2024)) \<and>
   fst (generate_monthly_report (stub_env clock_b) stub_pandas
          (snd (generate_monthly_report (stub_env clock_a) stub_pandas report_batch ''March'' 2024))
          ''March'' 2024) =
     map_sum id (\<lambda>r. r\<lparr>generated_date := ''2024-04-01 00:00:00''\<rparr>)
       (fst (generate_monthly_report (stub_env clock_a) stub_pandas report_batch ''March'' 2024))"
proof -
  have h1: "iso_week (stub_env clock_a) = iso_week (stub_env clock_b)"
    by (simp add: stub_env_def)
  have h2: "trend_guard (stub_env clock_a) = trend_guard (stub_env clock_b)"
    by (simp add: stub_env_def)
  have s: "strftime (clock_now (stub_env clock_b)) = ''2024-04-01 00:00:00''"
    by code_simp
  from report_deterministic_up_to_clock [OF h1 h2, of stub_nlp "[]" stub_pandas report_batch
      "''March''" 2024]
    h1 h2 show ?thesis
    unfolding s by blast
qed

end
